theory Spec2Isabelle
  imports Complex_Main
begin

section \<open>Python values shared by all modules\<close>

text \<open>
  Exceptions are values.  Every class below but \<open>KeyboardInterrupt\<close> derives from Python's
  \<open>Exception\<close>, so each of them is caught by an \<open>except Exception\<close> clause; the class only
  matters where the source names one (\<open>load_config\<close>, \<open>convert_h264_to_mp4\<close>, \<open>run\<close>).
  \<open>KeyboardInterrupt\<close> is raised only while the motion sensor is waited for, outside every
  \<open>except Exception\<close> clause.  The string is what \<open>str(e)\<close> yields.
\<close>

datatype exn_class =
    IndexError | TypeError | AttributeError | FileNotFoundError | PermissionError
  | IsADirectoryError | JSONDecodeError | UnicodeDecodeError | RuntimeError
  | CalledProcessError | ConnectionError | DriverError | KeyboardInterrupt

datatype exn = Exn exn_class string

fun exn_class_of :: "exn \<Rightarrow> exn_class" where
  "exn_class_of (Exn c m) = c"

fun str_exn :: "exn \<Rightarrow> string" where
  "str_exn (Exn c m) = m"

text \<open>
  Python \<open>str\<close> values are modelled as \<open>string\<close>; a character outside ASCII is written as
  its UTF-8 bytes.  \<open>str_nat\<close> is the decimal text of a non-negative integer, as an f-string
  renders \<open>{i}\<close>.
\<close>

definition newline :: string where
  "newline = [CHR 0x0A]"

definition digit_char :: "nat \<Rightarrow> char" where
  "digit_char d = ''0123456789'' ! d"

fun str_nat :: "nat \<Rightarrow> string" where
  "str_nat n = (if n < 10 then [digit_char n] else str_nat (n div 10) @ [digit_char (n mod 10)])"

declare str_nat.simps [simp del]

section \<open>detector.py: the detection result and the access decision\<close>

text \<open>
  The result of the MediaPipe detector as the source reads it: a list of detections, each
  with a bounding box and a list of categories, each category with a name and a score.
  Scores are floats in the source; only their order is used by the decision, so they are
  modelled as reals (finite floats compare as the reals they denote).
\<close>

record category =
  category_name :: string
  score :: real

record bounding_box =
  origin_x :: int
  origin_y :: int
  width :: int
  height :: int

record detection =
  bounding_box :: bounding_box
  categories :: "category list"

record detection_result =
  detections :: "detection list"

record object_detector =
  model_path :: string
  confidence_threshold :: real
  max_results :: nat
  output_dir :: string

text \<open>\<open>detection.categories[0]\<close>: raises \<open>IndexError\<close> on an empty list.\<close>

definition first_category :: "detection \<Rightarrow> exn + category" where
  "first_category d =
     (case categories d of
        [] \<Rightarrow> Inl (Exn IndexError ''list index out of range'')
      | c # cs \<Rightarrow> Inr c)"

text \<open>
  The \<open>for\<close> loop of \<open>check_access\<close>: it returns \<open>True\<close> at the first detection whose first
  category meets the threshold and \<open>False\<close> when the list is exhausted.
\<close>

fun check_access_loop :: "object_detector \<Rightarrow> detection list \<Rightarrow> exn + bool" where
  "check_access_loop self [] = Inr False"
| "check_access_loop self (d # ds) =
     (case first_category d of
        Inl e \<Rightarrow> Inl e
      | Inr c \<Rightarrow>
          (let confidence = score c in
           if confidence \<ge> confidence_threshold self then Inr True
           else check_access_loop self ds))"

definition check_access :: "object_detector \<Rightarrow> detection_result \<Rightarrow> exn + bool" where
  "check_access self detection_result =
     (if detections detection_result = [] then Inr False
      else check_access_loop self (detections detection_result))"

subsection \<open>The Telegram summary\<close>

definition emoji_no_entry :: string where
  "emoji_no_entry = [CHR 0xF0, CHR 0x9F, CHR 0x9A, CHR 0xAB]"

definition emoji_magnifier :: string where
  "emoji_magnifier = [CHR 0xF0, CHR 0x9F, CHR 0x94, CHR 0x8D]"

definition emoji_check_mark :: string where
  "emoji_check_mark = [CHR 0xE2, CHR 0x9C, CHR 0x85]"

definition emoji_cross_mark :: string where
  "emoji_cross_mark = [CHR 0xE2, CHR 0x9D, CHR 0x8C]"

definition no_objects_message :: string where
  "no_objects_message = emoji_no_entry @ '' No objects detected''"

definition results_header :: string where
  "results_header = emoji_magnifier @ '' <b>Detection Results:</b>'' @ newline"

definition granted_line :: string where
  "granted_line = newline @ ''   '' @ emoji_check_mark @ '' Access Granted - Door Open''"

definition denied_line :: string where
  "denied_line = newline @ ''   '' @ emoji_cross_mark @ '' Access Denied''"

text \<open>
  The loop of \<open>format_detection_message\<close> over \<open>enumerate(detections, 1)\<close>, with the message
  built so far as accumulator.  \<open>percent\<close> stands for Python's float formatting
  \<open>f"{confidence:.2%}"\<close>, which is not part of the repository and is taken as a parameter.
\<close>

fun format_loop ::
  "object_detector \<Rightarrow> (real \<Rightarrow> string) \<Rightarrow> nat \<Rightarrow> detection list \<Rightarrow> string \<Rightarrow> exn + string"
where
  "format_loop self percent i [] message = Inr message"
| "format_loop self percent i (d # ds) message =
     (case first_category d of
        Inl e \<Rightarrow> Inl e
      | Inr category \<Rightarrow>
          (let confidence = score category;
               message = message @ newline @ str_nat i @ ''. <b>'' @ category_name category @ ''</b>'';
               message = message @ newline @ ''   Confidence: '' @ percent confidence;
               message = (if confidence \<ge> confidence_threshold self
                          then message @ granted_line
                          else message @ denied_line)
           in format_loop self percent (Suc i) ds message))"

definition format_detection_message ::
  "object_detector \<Rightarrow> (real \<Rightarrow> string) \<Rightarrow> detection_result \<Rightarrow> exn + string"
where
  "format_detection_message self percent detection_result =
     (if length (detections detection_result) = 0 then Inr no_objects_message
      else format_loop self percent 1 (detections detection_result) results_header)"

subsection \<open>The summary as the specification words it\<close>

text \<open>
  One entry per detection: its position, the label of its first category, the confidence as
  a percentage, and the annotation chosen by comparing this detection's own confidence
  with the threshold.
\<close>

definition summary_entry ::
  "object_detector \<Rightarrow> (real \<Rightarrow> string) \<Rightarrow> nat \<Rightarrow> category \<Rightarrow> string"
where
  "summary_entry self percent i c =
     newline @ str_nat i @ ''. <b>'' @ category_name c @ ''</b>''
     @ newline @ ''   Confidence: '' @ percent (score c)
     @ (if confidence_threshold self \<le> score c then granted_line else denied_line)"

definition summary_entries ::
  "object_detector \<Rightarrow> (real \<Rightarrow> string) \<Rightarrow> detection list \<Rightarrow> string list"
where
  "summary_entries self percent ds =
     map (\<lambda>(i, d). summary_entry self percent i (hd (categories d))) (enumerate 1 ds)"

text \<open>A detection result is well formed when every detection carries at least one category.\<close>

definition has_categories :: "detection_result \<Rightarrow> bool" where
  "has_categories r = list_all (\<lambda>d. categories d \<noteq> []) (detections r)"

text \<open>The first categories of a result, the only part the two operations may depend on.\<close>

definition first_categories :: "detection_result \<Rightarrow> category list list" where
  "first_categories r = map (\<lambda>d. take 1 (categories d)) (detections r)"

text \<open>Some detection's first category meets the threshold.\<close>

definition meets_threshold :: "object_detector \<Rightarrow> detection \<Rightarrow> bool" where
  "meets_threshold self d =
     (case categories d of [] \<Rightarrow> False | c # cs \<Rightarrow> confidence_threshold self \<le> score c)"

section \<open>The world outside the program\<close>

text \<open>
  Images are kept symbolically: the captured frame and the OpenCV operations applied to it.
  OpenCV's conversions and drawing calls are taken as total operations on a valid array.
\<close>

datatype image_op =
    Resize nat nat
  | Flip int
  | CvtColor
  | Rectangle "int \<times> int" "int \<times> int" "nat \<times> nat \<times> nat" nat
  | PutText string "int \<times> int" real "nat \<times> nat \<times> nat" nat

record image =
  frame :: nat
  ops :: "image_op list"

text \<open>
  The calls that leave the program: the camera driver, file writes, the detector, the
  transcoder, the Telegram API and the GPIO devices.  Each of them may raise.
\<close>

datatype call =
    Picamera2 | Close | Align | CreateVideoConfiguration | Configure string | Start | Stop
  | StartRecording string | StopRecording | CaptureArray
  | ImWrite string image
  | CreateDetector string nat real | Detect image | CloseDetector
  | Ffmpeg string
  | SendMessage string | SendVideo string string | SendPhoto string string
  | BuzzerValue real | BuzzerOff | BuzzerClose
  | WaitForMotion

text \<open>
  What an observer sees, in order: every outside call with whether it returned (\<open>True\<close>)
  or raised (\<open>False\<close>), every printed line and every \<open>time.sleep\<close>.
\<close>

datatype event =
    Called call bool
  | Print string
  | Sleep real

text \<open>The Picamera2 object held in \<open>CameraManager.picam2\<close>.\<close>

record camera =
  is_open :: bool
  started :: bool

text \<open>
  The state the program runs in.
  \<^item> \<open>files\<close>: the paths that exist on disk; \<open>undeletable\<close>: the paths on which
    \<open>os.remove\<close> raises although they exist.
  \<^item> \<open>picam2\<close>: the field \<open>CameraManager.picam2\<close> (\<open>None\<close> or the camera object).
  \<^item> \<open>peak\<close>: the largest number of open camera objects the manager has held at one
    moment (the one in its field and a freshly constructed one).
  \<^item> \<open>calls\<close> counts the outside calls made so far and \<open>faults\<close> tells which of them
    raise: the \<open>k\<close>-th outside call raises iff \<open>k \<in> faults\<close>.  A call that raises has no
    other effect.
  \<^item> \<open>clock\<close>: the text \<open>datetime.now().strftime("%Y%m%d_%H%M%S")\<close> yields after so many
    outside calls.
  \<^item> \<open>detect_returns\<close>: what the MediaPipe detector returns for the image.
  \<^item> \<open>events\<close>: the events so far.
\<close>

record world =
  files :: "string set"
  undeletable :: "string set"
  picam2 :: "camera option"
  peak :: nat
  calls :: nat
  faults :: "nat set"
  clock :: "nat \<Rightarrow> string"
  detect_returns :: detection_result
  events :: "event list"

subsection \<open>Statements: state passing with exceptions\<close>

text \<open>
  A statement maps the world to an outcome (\<open>Inl\<close> the raised exception, \<open>Inr\<close> the value)
  and the new world.  \<open>try_except\<close> and \<open>try_finally\<close> are Python's clauses: the handler
  runs in the world the failing body left; the \<open>finally\<close> block runs on both outcomes and
  an exception of its own replaces the outcome of the body.
\<close>

type_synonym 'a prog = "world \<Rightarrow> (exn + 'a) \<times> world"

definition succeed :: "'a \<Rightarrow> 'a prog" where
  "succeed x w = (Inr x, w)"

definition raise :: "exn \<Rightarrow> 'a prog" where
  "raise e w = (Inl e, w)"

definition and_then :: "'a prog \<Rightarrow> ('a \<Rightarrow> 'b prog) \<Rightarrow> 'b prog" where
  "and_then m f w = (case m w of (Inl e, w') \<Rightarrow> (Inl e, w') | (Inr x, w') \<Rightarrow> f x w')"

definition seq :: "'a prog \<Rightarrow> 'b prog \<Rightarrow> 'b prog" where
  "seq m n = and_then m (\<lambda>_. n)"

definition try_except :: "'a prog \<Rightarrow> (exn \<Rightarrow> 'a prog) \<Rightarrow> 'a prog" where
  "try_except m handler w =
     (case m w of (Inl e, w') \<Rightarrow> handler e w' | (Inr x, w') \<Rightarrow> (Inr x, w'))"

definition try_finally :: "'a prog \<Rightarrow> unit prog \<Rightarrow> 'a prog" where
  "try_finally m final w =
     (case m w of (r, w') \<Rightarrow>
        (case final w' of (Inl e, w'') \<Rightarrow> (Inl e, w'') | (Inr u, w'') \<Rightarrow> (r, w'')))"

definition emit :: "event \<Rightarrow> unit prog" where
  "emit ev w = (Inr (), w\<lparr>events := events w @ [ev]\<rparr>)"

definition print :: "string \<Rightarrow> unit prog" where
  "print line = emit (Print line)"

definition sleep :: "real \<Rightarrow> unit prog" where
  "sleep seconds = emit (Sleep seconds)"

text \<open>
  An outside call: it is counted, raises \<open>e\<close> when the fault set says so, and otherwise has
  its effect.  The event records the call and whether it returned.
\<close>

definition external :: "call \<Rightarrow> exn \<Rightarrow> (world \<Rightarrow> world) \<Rightarrow> unit prog" where
  "external c e effect w =
     (let k = calls w;
          w1 = w\<lparr>calls := Suc k\<rparr>
      in if k \<in> faults w
         then (Inl e, w1\<lparr>events := events w1 @ [Called c False]\<rparr>)
         else (Inr (), effect (w1\<lparr>events := events w1 @ [Called c True]\<rparr>)))"

definition datetime_now :: "world \<Rightarrow> string" where
  "datetime_now w = clock w (calls w)"

subsection \<open>Paths and files\<close>

text \<open>\<open>os.path.join\<close> of two components, \<open>os.path.basename\<close> and \<open>str.replace\<close>.\<close>

definition os_path_join :: "string \<Rightarrow> string \<Rightarrow> string" where
  "os_path_join a b =
     (if b \<noteq> [] \<and> hd b = CHR ''/'' then b
      else if a = [] \<or> last a = CHR ''/'' then a @ b
      else a @ ''/'' @ b)"

fun os_path_basename :: "string \<Rightarrow> string" where
  "os_path_basename [] = []"
| "os_path_basename (c # cs) =
     (if CHR ''/'' \<in> set cs then os_path_basename cs
      else if c = CHR ''/'' then cs else c # cs)"

function str_replace :: "string \<Rightarrow> string \<Rightarrow> string \<Rightarrow> string" where
  "str_replace old new s =
     (if s = [] \<or> old = [] then s
      else if take (length old) s = old then new @ str_replace old new (drop (length old) s)
      else hd s # str_replace old new (tl s))"
  by pat_completeness auto
termination
  by (relation "measure (\<lambda>(old, new, s). length s)") (auto simp: neq_Nil_conv)

declare str_replace.simps [simp del]

text \<open>
  \<open>os.path.exists\<close> raises \<open>TypeError\<close> on \<open>None\<close> and is false on the empty path;
  \<open>os.remove\<close> raises on \<open>None\<close> and when the file is missing or cannot be deleted.
\<close>

definition os_path_exists :: "string option \<Rightarrow> bool prog" where
  "os_path_exists path w =
     (case path of
        None \<Rightarrow> (Inl (Exn TypeError ''stat: path should be string, bytes, os.PathLike or integer, not NoneType''), w)
      | Some p \<Rightarrow> (Inr (p \<noteq> [] \<and> p \<in> files w), w))"

definition os_remove :: "string option \<Rightarrow> unit prog" where
  "os_remove path w =
     (case path of
        None \<Rightarrow> (Inl (Exn TypeError ''remove: path should be string, bytes or os.PathLike, not NoneType''), w)
      | Some p \<Rightarrow>
          if p \<notin> files w
          then (Inl (Exn FileNotFoundError (''No such file or directory: '' @ p)), w)
          else if p \<in> undeletable w
          then (Inl (Exn PermissionError (''Permission denied: '' @ p)), w)
          else (Inr (), w\<lparr>files := files w - {p}\<rparr>))"

text \<open>Python truthiness of an optional path: \<open>None\<close> and the empty string are false.\<close>

definition truthy :: "string option \<Rightarrow> bool" where
  "truthy path = (case path of None \<Rightarrow> False | Some p \<Rightarrow> p \<noteq> [])"

text \<open>How an f-string renders an optional path.\<close>

definition str_path :: "string option \<Rightarrow> string" where
  "str_path path = (case path of None \<Rightarrow> ''None'' | Some p \<Rightarrow> p)"

section \<open>camera\_manager.py\<close>

text \<open>
  The fields \<open>CameraManager.__init__\<close> sets and never changes; the mutable field \<open>picam2\<close>
  lives in the world.
\<close>

record camera_manager =
  max_retries :: nat
  retry_delay :: real
  video_dir :: string
  images_dir :: string

definition new_camera_manager :: camera_manager where
  "new_camera_manager =
     \<lparr>max_retries = 3, retry_delay = 2, video_dir = ''videos'', images_dir = ''images''\<rparr>"

text \<open>
  A method call on \<open>self.picam2\<close>: \<open>AttributeError\<close> when the field is \<open>None\<close>, otherwise an
  outside call whose effect may depend on the camera object.
\<close>

definition camera_method :: "call \<Rightarrow> (camera \<Rightarrow> world \<Rightarrow> world) \<Rightarrow> unit prog" where
  "camera_method c effect w =
     (case picam2 w of
        None \<Rightarrow> (Inl (Exn AttributeError ''NoneType object has no attribute''), w)
      | Some cam \<Rightarrow> external c (Exn DriverError ''camera driver error'') (effect cam) w)"

definition set_camera :: "camera \<Rightarrow> world \<Rightarrow> world" where
  "set_camera cam w = w\<lparr>picam2 := Some cam\<rparr>"

definition camera_close :: "unit prog" where
  "camera_close = camera_method Close (\<lambda>cam. set_camera (cam\<lparr>is_open := False, started := False\<rparr>))"

definition camera_stop :: "unit prog" where
  "camera_stop = camera_method Stop (\<lambda>cam. set_camera (cam\<lparr>started := False\<rparr>))"

definition camera_start :: "unit prog" where
  "camera_start = camera_method Start (\<lambda>cam. set_camera (cam\<lparr>started := True\<rparr>))"

definition camera_align :: "unit prog" where
  "camera_align = camera_method Align (\<lambda>cam w. w)"

definition camera_create_video_configuration :: "unit prog" where
  "camera_create_video_configuration = camera_method CreateVideoConfiguration (\<lambda>cam w. w)"

definition camera_configure :: "string \<Rightarrow> unit prog" where
  "camera_configure config = camera_method (Configure config) (\<lambda>cam w. w)"

definition camera_start_recording :: "string \<Rightarrow> unit prog" where
  "camera_start_recording path =
     camera_method (StartRecording path) (\<lambda>cam w. w\<lparr>files := insert path (files w)\<rparr>)"

definition camera_stop_recording :: "unit prog" where
  "camera_stop_recording = camera_method StopRecording (\<lambda>cam w. w)"

text \<open>The number of open camera objects the manager holds in its field.\<close>

definition held_open :: "world \<Rightarrow> nat" where
  "held_open w = (case picam2 w of None \<Rightarrow> 0 | Some cam \<Rightarrow> if is_open cam then 1 else 0)"

text \<open>
  \<open>self.picam2 = Picamera2()\<close>: the constructor opens the device; when it returns, the
  manager holds the new object beside whatever open object its field still held.
\<close>

definition camera_new :: "unit prog" where
  "camera_new =
     external Picamera2 (Exn DriverError ''camera driver error'')
       (\<lambda>w. w\<lparr>picam2 := Some \<lparr>is_open = True, started = False\<rparr>,
               peak := max (peak w) (Suc (held_open w))\<rparr>)"

text \<open>The body of the \<open>try\<close> block of \<open>initialize_camera\<close>, up to \<open>return True\<close>.\<close>

definition init_attempt :: "string \<Rightarrow> unit prog" where
  "init_attempt mode =
     seq (\<lambda>w. (if picam2 w \<noteq> None then seq camera_close (sleep 1) else succeed ()) w)
    (seq camera_new
    (seq (if mode = ''preview'' then seq camera_align (camera_configure ''preview'')
          else if mode = ''video''
               then seq camera_create_video_configuration (camera_configure ''video'')
               else succeed ())
    (seq camera_start
         (sleep 2))))"

definition attempt_failed_line :: "nat \<Rightarrow> exn \<Rightarrow> string" where
  "attempt_failed_line attempt e =
     ''Camera initialization attempt '' @ str_nat (attempt + 1) @ '' failed: '' @ str_exn e"

definition init_error :: "camera_manager \<Rightarrow> exn" where
  "init_error self =
     Exn RuntimeError
       (''Failed to initialize camera after '' @ str_nat (max_retries self) @ '' attempts'')"

text \<open>
  The loop \<open>for attempt in range(self._max_retries)\<close>, over the attempts still to make.
  A successful attempt returns \<open>True\<close>; a failed one is logged and either followed by the
  retry delay or, on the last attempt, by \<open>RuntimeError\<close>.  With no attempt to make the
  function falls off its end and returns \<open>None\<close>.
\<close>

fun initialize_camera_loop :: "camera_manager \<Rightarrow> string \<Rightarrow> nat list \<Rightarrow> bool option prog" where
  "initialize_camera_loop self mode [] = succeed None"
| "initialize_camera_loop self mode (attempt # rest) =
     try_except
       (seq (init_attempt mode) (succeed (Some True)))
       (\<lambda>e. seq (print (attempt_failed_line attempt e))
                (if int attempt < int (max_retries self) - 1
                 then seq (sleep (retry_delay self)) (initialize_camera_loop self mode rest)
                 else raise (init_error self)))"

definition initialize_camera :: "camera_manager \<Rightarrow> string \<Rightarrow> bool option prog" where
  "initialize_camera self mode = initialize_camera_loop self mode [0 ..< max_retries self]"

definition cleanup_error_line :: "exn \<Rightarrow> string" where
  "cleanup_error_line e = ''Error during camera cleanup: '' @ str_exn e"

definition cleanup :: "unit prog" where
  "cleanup w =
     (if picam2 w \<noteq> None
      then try_finally
             (try_except (seq camera_stop camera_close) (\<lambda>e. print (cleanup_error_line e)))
             (\<lambda>w. (Inr (), w\<lparr>picam2 := None\<rparr>)) w
      else (Inr (), w))"

definition capture_h264_video :: "camera_manager \<Rightarrow> real \<Rightarrow> string prog" where
  "capture_h264_video self duration w =
     (let timestamp = datetime_now w;
          h264_path = os_path_join (video_dir self) (''video_'' @ timestamp @ ''.h264'')
      in try_finally
           (try_except
              (seq (initialize_camera self ''video'')
              (seq (print ''Recording H.264 video...'')
              (seq (camera_start_recording h264_path)
              (seq (sleep duration)
              (seq camera_stop_recording
                   (succeed h264_path))))))
              (\<lambda>e. seq (print (''Error during H.264 video capture: '' @ str_exn e)) (raise e)))
           cleanup w)"

text \<open>
  \<open>capture_array\<close> yields a new frame (named by the number of the call); \<open>cv2.imwrite\<close>
  is an outside call that creates the file.
\<close>

definition camera_capture_array :: "image prog" where
  "camera_capture_array w =
     (case camera_method CaptureArray (\<lambda>cam w. w) w of
        (Inl e, w') \<Rightarrow> (Inl e, w')
      | (Inr u, w') \<Rightarrow> (Inr \<lparr>frame = calls w, ops = []\<rparr>, w'))"

definition cv2_imwrite :: "string \<Rightarrow> image \<Rightarrow> unit prog" where
  "cv2_imwrite path img =
     external (ImWrite path img) (Exn RuntimeError ''could not write image'')
       (\<lambda>w. w\<lparr>files := insert path (files w)\<rparr>)"

definition cv2_apply :: "image_op \<Rightarrow> image \<Rightarrow> image" where
  "cv2_apply operation img = img\<lparr>ops := ops img @ [operation]\<rparr>"

definition capture_image :: "camera_manager \<Rightarrow> (image \<times> string \<times> string) prog" where
  "capture_image self =
     try_finally
       (try_except
          (seq (initialize_camera self ''preview'')
          (seq (print ''Capturing image...'')
          (and_then camera_capture_array (\<lambda>image w.
             (let timestamp = datetime_now w;
                  image = cv2_apply (Resize 640 480) image;
                  image = cv2_apply (Flip (- 1)) image;
                  image_path = os_path_join (images_dir self) (''captured_'' @ timestamp @ ''.jpg'')
              in seq (cv2_imwrite image_path image)
                     (succeed (image, timestamp, image_path)) w)))))
          (\<lambda>e. seq (print (''Error during image capture: '' @ str_exn e)) (raise e)))
       cleanup"

subsection \<open>Transcoding\<close>

text \<open>
  \<open>subprocess.run(..., check=True)\<close> on the ffmpeg command: it raises
  \<open>CalledProcessError\<close> when ffmpeg fails, which it does when its input is missing.
\<close>

definition ffmpeg_command :: "string \<Rightarrow> string \<Rightarrow> string" where
  "ffmpeg_command h264_path mp4_path =
     ''ffmpeg -fflags +genpts -i '' @ h264_path @ '' -vf vflip -c:v h264 '' @ mp4_path"

definition subprocess_run_ffmpeg :: "string \<Rightarrow> string \<Rightarrow> unit prog" where
  "subprocess_run_ffmpeg h264_path mp4_path w =
     (if h264_path \<notin> files w
      then (Inl (Exn CalledProcessError ''ffmpeg returned non-zero exit status''),
            w\<lparr>calls := Suc (calls w),
              events := events w @ [Called (Ffmpeg (ffmpeg_command h264_path mp4_path)) False]\<rparr>)
      else external (Ffmpeg (ffmpeg_command h264_path mp4_path))
             (Exn CalledProcessError ''ffmpeg returned non-zero exit status'')
             (\<lambda>w. w\<lparr>files := insert mp4_path (files w)\<rparr>) w)"

definition convert_h264_to_mp4 :: "string \<Rightarrow> string option \<Rightarrow> string prog" where
  "convert_h264_to_mp4 h264_path mp4_path_opt =
     (let mp4_path = (case mp4_path_opt of
                        None \<Rightarrow> str_replace ''.h264'' ''.mp4'' h264_path
                      | Some p \<Rightarrow> p)
      in try_except
           (seq (subprocess_run_ffmpeg h264_path mp4_path)
           (seq (print (''Converted and flipped video to '' @ mp4_path))
                (succeed mp4_path)))
           (\<lambda>e. if exn_class_of e = CalledProcessError
                 then seq (print (''Error during video conversion: '' @ str_exn e)) (raise e)
                 else raise e))"

definition store_converted_video :: "camera_manager \<Rightarrow> string \<Rightarrow> string prog" where
  "store_converted_video self h264_path =
     try_except
       (let filename = str_replace ''.h264'' ''.mp4'' (os_path_basename h264_path);
            mp4_path = os_path_join (video_dir self) filename
        in convert_h264_to_mp4 h264_path (Some mp4_path))
       (\<lambda>e. seq (print (''Error storing converted video: '' @ str_exn e)) (raise e))"

subsection \<open>Removing the files of a cycle\<close>

text \<open>
  One turn of the loop over \<open>video_paths\<close>, and the loop.  The entries are optional paths,
  as the orchestrator passes \<open>[h264_path, mp4_path]\<close> with either of them possibly \<open>None\<close>.
\<close>

definition remove_video_file :: "string option \<Rightarrow> unit prog" where
  "remove_video_file path =
     try_except
       (and_then (os_path_exists path) (\<lambda>found.
          if found
          then seq (os_remove path) (print (''Removed video file: '' @ str_path path))
          else succeed ()))
       (\<lambda>e. print (''Error removing video file '' @ str_path path @ '': '' @ str_exn e))"

fun remove_video_files :: "string option list \<Rightarrow> unit prog" where
  "remove_video_files [] = succeed ()"
| "remove_video_files (path # paths) = seq (remove_video_file path) (remove_video_files paths)"

definition cleanup_files :: "string option list option \<Rightarrow> string option \<Rightarrow> unit prog" where
  "cleanup_files video_paths image_path =
     seq (case video_paths of
            None \<Rightarrow> succeed ()
          | Some paths \<Rightarrow> if paths \<noteq> [] then remove_video_files paths else succeed ())
         (if truthy image_path
          then try_except
                 (and_then (os_path_exists image_path) (\<lambda>found.
                    if found
                    then seq (os_remove image_path)
                             (print (''Removed image file: '' @ str_path image_path))
                    else succeed ()))
                 (\<lambda>e. print (''Error removing image file '' @ str_path image_path @ '': ''
                              @ str_exn e))
          else succeed ())"

section \<open>detector.py: running the detector\<close>

text \<open>
  \<open>draw_detections\<close>: for each detection a rectangle around its bounding box, then the label
  and the rounded score of its first category above the box.  \<open>rounded\<close> stands for the text
  Python gives \<open>round(category.score, 2)\<close> in an f-string, a built-in taken as a parameter.
  The drawing happens on a copy of the image, so the model returns the drawn image.
\<close>

definition magenta :: "nat \<times> nat \<times> nat" where
  "magenta = (255, 0, 255)"

definition detection_rectangle :: "detection \<Rightarrow> image_op" where
  "detection_rectangle detection =
     (let bbox = bounding_box detection;
          start_point = (origin_x bbox, origin_y bbox);
          end_point = (origin_x bbox + width bbox, origin_y bbox + height bbox)
      in Rectangle start_point end_point magenta 3)"

definition detection_label :: "(real \<Rightarrow> string) \<Rightarrow> detection \<Rightarrow> category \<Rightarrow> image_op" where
  "detection_label rounded detection category =
     (let bbox = bounding_box detection;
          result_text = category_name category @ '' ('' @ rounded (score category) @ '')'';
          text_location = (origin_x bbox, origin_y bbox - 10)
      in PutText result_text text_location (7 / 10) magenta 2)"

fun draw_loop :: "(real \<Rightarrow> string) \<Rightarrow> image \<Rightarrow> detection list \<Rightarrow> exn + image" where
  "draw_loop rounded img [] = Inr img"
| "draw_loop rounded img (detection # rest) =
     (let img = cv2_apply (detection_rectangle detection) img in
      case first_category detection of
        Inl e \<Rightarrow> Inl e
      | Inr category \<Rightarrow>
          draw_loop rounded (cv2_apply (detection_label rounded detection category) img) rest)"

definition draw_detections :: "(real \<Rightarrow> string) \<Rightarrow> image \<Rightarrow> detection_result \<Rightarrow> exn + image" where
  "draw_detections rounded img detection_result =
     draw_loop rounded img (detections detection_result)"

text \<open>
  The calls into MediaPipe: creating the detector from the model path, the maximum number
  of results and the score threshold, running it, closing it.
\<close>

definition create_detector :: "object_detector \<Rightarrow> unit prog" where
  "create_detector self =
     external (CreateDetector (model_path self) (max_results self) (confidence_threshold self))
       (Exn RuntimeError ''unable to create detector'') (\<lambda>w. w)"

definition detector_detect :: "image \<Rightarrow> detection_result prog" where
  "detector_detect mp_image w =
     (case external (Detect mp_image) (Exn RuntimeError ''detection failed'') (\<lambda>w. w) w of
        (Inl e, w') \<Rightarrow> (Inl e, w')
      | (Inr u, w') \<Rightarrow> (Inr (detect_returns w), w'))"

definition detector_close :: "unit prog" where
  "detector_close = external CloseDetector (Exn RuntimeError ''unable to close detector'') (\<lambda>w. w)"

definition lift :: "exn + 'a \<Rightarrow> 'a prog" where
  "lift r w = (r, w)"

definition annotated_name :: "string \<Rightarrow> nat \<Rightarrow> string" where
  "annotated_name timestamp n = ''detected_'' @ timestamp @ ''_'' @ str_nat n @ ''objects.jpg''"

definition detect_objects ::
  "object_detector \<Rightarrow> (real \<Rightarrow> string) \<Rightarrow> image \<Rightarrow> string
     \<Rightarrow> (detection_result \<times> string option) prog"
where
  "detect_objects self rounded img timestamp =
     (let rgb_image = cv2_apply CvtColor img;
          mp_image = rgb_image
      in seq (create_detector self)
        (seq (print ''Performing object detection...'')
        (and_then (detector_detect mp_image) (\<lambda>detection_result.
         and_then (lift (draw_detections rounded img detection_result)) (\<lambda>annotated_image.
           (let n = length (detections detection_result);
                annotated_path = os_path_join (output_dir self) (annotated_name timestamp n)
            in seq (if n > 0 then cv2_imwrite annotated_path annotated_image else succeed ())
              (seq detector_close
                   (succeed (detection_result,
                             if n > 0 then Some annotated_path else None)))))))))"

text \<open>\<open>check_access\<close> and \<open>format_detection_message\<close> as statements, with what they print.\<close>

definition check_access_prog :: "object_detector \<Rightarrow> detection_result \<Rightarrow> bool prog" where
  "check_access_prog self detection_result =
     and_then (lift (check_access self detection_result)) (\<lambda>granted.
       seq (if detections detection_result = [] then print ''No objects detected''
            else if granted then print ''Authorized object detected''
            else print ''No authorized objects detected with sufficient confidence'')
           (succeed granted))"

definition remove_annotated_image :: "string option \<Rightarrow> unit prog" where
  "remove_annotated_image annotated_image_path =
     try_except
       (if truthy annotated_image_path
        then and_then (os_path_exists annotated_image_path) (\<lambda>found.
               if found
               then seq (os_remove annotated_image_path)
                        (print (''Removed annotated image: '' @ str_path annotated_image_path))
               else succeed ())
        else succeed ())
       (\<lambda>e. print (''Error removing annotated image '' @ str_path annotated_image_path @ '': ''
                    @ str_exn e))"

section \<open>telegram\_bot.py\<close>

text \<open>
  Each method posts to the Telegram API and decodes the answer, one outside call that
  raises when the request or the decoding fails.  \<open>send_video\<close> and \<open>send_photo\<close> open the
  file first, which raises \<open>FileNotFoundError\<close> when it is missing.
\<close>

definition send_message :: "string \<Rightarrow> unit prog" where
  "send_message text = external (SendMessage text) (Exn ConnectionError ''request failed'') (\<lambda>w. w)"

definition open_for_reading :: "string \<Rightarrow> unit prog" where
  "open_for_reading path w =
     (if path \<in> files w then (Inr (), w)
      else (Inl (Exn FileNotFoundError (''No such file or directory: '' @ path)), w))"

definition send_video :: "string \<Rightarrow> string \<Rightarrow> unit prog" where
  "send_video video_path caption =
     seq (open_for_reading video_path)
         (external (SendVideo video_path caption) (Exn ConnectionError ''request failed'') (\<lambda>w. w))"

definition send_photo :: "string \<Rightarrow> string \<Rightarrow> unit prog" where
  "send_photo photo_path caption =
     seq (open_for_reading photo_path)
         (external (SendPhoto photo_path caption) (Exn ConnectionError ''request failed'') (\<lambda>w. w))"

section \<open>main.py: the orchestrator\<close>

record security_system =
  camera_manager :: camera_manager
  detector :: object_detector
  VIDEO_DURATION :: real

definition emoji_video_camera :: string where
  "emoji_video_camera = [CHR 0xF0, CHR 0x9F, CHR 0x93, CHR 0xB9]"

definition video_caption :: string where
  "video_caption = emoji_video_camera @ '' Security Footage''"

definition photo_caption :: string where
  "photo_caption = emoji_magnifier @ '' Detected Objects''"

definition buzz_buzzer :: "real \<Rightarrow> unit prog" where
  "buzz_buzzer duration =
     seq (print ''Access Denied - Activating Buzzer'')
    (seq (external (BuzzerValue (1 / 2)) (Exn RuntimeError ''GPIO error'') (\<lambda>w. w))
    (seq (sleep duration)
         (external BuzzerOff (Exn RuntimeError ''GPIO error'') (\<lambda>w. w))))"

definition handle_access_granted :: "unit prog" where
  "handle_access_granted = print (newline @ ''=== Access Granted - Door Open ==='' @ newline)"

text \<open>
  The local variables of \<open>run\<close> that the \<open>finally\<close> block reads.  They are assigned one
  after the other inside the \<open>try\<close> block, so the block leaves them as far as it got.
\<close>

record cycle_paths =
  h264_path :: "string option"
  image_path :: "string option"
  mp4_path :: "string option"
  annotated_image_path :: "string option"

definition no_paths :: cycle_paths where
  "no_paths = \<lparr>h264_path = None, image_path = None, mp4_path = None,
               annotated_image_path = None\<rparr>"

text \<open>
  One statement of the \<open>try\<close> block: when it raises, control leaves the block with the
  exception and the variables as they are; otherwise the block goes on.
\<close>

definition in_try ::
  "'a prog \<Rightarrow> cycle_paths \<Rightarrow> ('a \<Rightarrow> (exn option \<times> cycle_paths) prog)
     \<Rightarrow> (exn option \<times> cycle_paths) prog"
where
  "in_try m vars continue w =
     (case m w of
        (Inl e, w') \<Rightarrow> (Inr (Some e, vars), w')
      | (Inr x, w') \<Rightarrow> continue x w')"

definition try_block ::
  "security_system \<Rightarrow> (real \<Rightarrow> string) \<Rightarrow> (real \<Rightarrow> string) \<Rightarrow> (exn option \<times> cycle_paths) prog"
where
  "try_block self percent rounded =
     in_try (capture_h264_video (camera_manager self) (VIDEO_DURATION self)) no_paths (\<lambda>h264.
     (let vars = no_paths\<lparr>h264_path := Some h264\<rparr> in
     in_try (print (''H.264 video captured: '' @ h264)) vars (\<lambda>_.
     in_try (capture_image (camera_manager self)) vars (\<lambda>(image, timestamp, image_file).
     (let vars = vars\<lparr>image_path := Some image_file\<rparr> in
     in_try (print (''Image captured: '' @ image_file)) vars (\<lambda>_.
     in_try (detect_objects (detector self) rounded image timestamp) vars
       (\<lambda>(detection_result, annotated).
     (let vars = vars\<lparr>annotated_image_path := annotated\<rparr> in
     in_try (print (''Object detection completed. Annotated image: '' @ str_path annotated)) vars
       (\<lambda>_.
     in_try (and_then (check_access_prog (detector self) detection_result) (\<lambda>granted.
               if granted then handle_access_granted else buzz_buzzer 1)) vars (\<lambda>_.
     in_try (store_converted_video (camera_manager self) h264) vars (\<lambda>mp4.
     (let vars = vars\<lparr>mp4_path := Some mp4\<rparr> in
     in_try (print (''Video converted to MP4: '' @ mp4)) vars (\<lambda>_.
     in_try (lift (format_detection_message (detector self) percent detection_result)) vars
       (\<lambda>message.
     in_try (send_message message) vars (\<lambda>_.
     in_try (send_video mp4 video_caption) vars (\<lambda>_.
     in_try (if truthy annotated then send_photo (str_path annotated) photo_caption
             else succeed ()) vars (\<lambda>_.
     succeed (None, vars))))))))))))))))))"

definition cycle_error_message :: "exn \<Rightarrow> string" where
  "cycle_error_message e = ''Error in detection cycle: '' @ str_exn e"

definition except_block :: "exn \<Rightarrow> unit prog" where
  "except_block e =
     (let error_msg = cycle_error_message e
      in seq (print error_msg)
             (send_message (emoji_cross_mark @ '' '' @ error_msg)))"

definition finally_block :: "cycle_paths \<Rightarrow> unit prog" where
  "finally_block vars =
     seq (cleanup_files
            (if truthy (h264_path vars) \<or> truthy (mp4_path vars)
             then Some [h264_path vars, mp4_path vars] else None)
            (image_path vars))
    (seq (if truthy (annotated_image_path vars)
          then try_except (remove_annotated_image (annotated_image_path vars))
                 (\<lambda>cleanup_error.
                    print (''Error removing annotated image: '' @ str_exn cleanup_error))
          else succeed ())
         cleanup)"

text \<open>
  One detection cycle: the \<open>try\<close> statement inside the loop of \<open>run\<close>.  An exception of the
  \<open>except\<close> block itself is not caught by this statement; the \<open>finally\<close> block runs and the
  exception goes on to the caller.
\<close>

definition detection_cycle ::
  "security_system \<Rightarrow> (real \<Rightarrow> string) \<Rightarrow> (real \<Rightarrow> string) \<Rightarrow> unit prog"
where
  "detection_cycle self percent rounded =
     and_then (try_block self percent rounded) (\<lambda>(raised, vars).
       try_finally
         (case raised of None \<Rightarrow> succeed () | Some e \<Rightarrow> except_block e)
         (finally_block vars))"

text \<open>
  The loop \<open>while True\<close> of \<open>run\<close>, for the motion events that arrive before the user
  interrupts the program: the interrupt is taken while the sensor is waited for.
\<close>

definition keyboard_interrupt :: exn where
  "keyboard_interrupt = Exn KeyboardInterrupt ''''"

fun run_loop ::
  "security_system \<Rightarrow> (real \<Rightarrow> string) \<Rightarrow> (real \<Rightarrow> string) \<Rightarrow> nat \<Rightarrow> unit prog"
where
  "run_loop self percent rounded 0 =
     seq (print ''Waiting for motion...'') (raise keyboard_interrupt)"
| "run_loop self percent rounded (Suc motions) =
     seq (print ''Waiting for motion...'')
    (seq (external WaitForMotion (Exn RuntimeError ''GPIO error'') (\<lambda>w. w))
    (seq (print ''Motion detected!'')
    (seq (detection_cycle self percent rounded)
    (seq (sleep 5)
         (run_loop self percent rounded motions)))))"

definition run ::
  "security_system \<Rightarrow> (real \<Rightarrow> string) \<Rightarrow> (real \<Rightarrow> string) \<Rightarrow> nat \<Rightarrow> unit prog"
where
  "run self percent rounded motions =
     try_finally
       (try_except (run_loop self percent rounded motions)
          (\<lambda>e. if exn_class_of e = KeyboardInterrupt
                then print (newline @ ''Program interrupted by user'')
                else raise e))
       (seq (external BuzzerClose (Exn RuntimeError ''GPIO error'') (\<lambda>w. w))
            cleanup)"

text \<open>
  \<open>main\<close>, once the system is constructed: the exit status of the process, \<open>None\<close> when
  \<open>run\<close> returns and the interpreter ends normally, \<open>Some 1\<close> after \<open>sys.exit(1)\<close>.
\<close>

definition main ::
  "security_system \<Rightarrow> (real \<Rightarrow> string) \<Rightarrow> (real \<Rightarrow> string) \<Rightarrow> nat \<Rightarrow> world
     \<Rightarrow> nat option \<times> world"
where
  "main self percent rounded motions w =
     (case run self percent rounded motions w of
        (Inr u, w') \<Rightarrow> (None, w')
      | (Inl e, w') \<Rightarrow>
          (Some 1, w'\<lparr>events := events w' @
                      [Print (''Critical error in security system: '' @ str_exn e)]\<rparr>))"

section \<open>config\_loader.py\<close>

text \<open>
  The values \<open>json.load\<close> yields; JSON \<open>null\<close> is Python's \<open>None\<close>.
\<close>

datatype json =
    JNull
  | JBool bool
  | JNumber real
  | JString string
  | JArray "json list"
  | JObject "(string \<times> json) list"

text \<open>
  What \<open>open(config_path, 'r')\<close> followed by \<open>json.load\<close> meets at a path: no file, a file
  that cannot be opened or read (no permission, a directory, bytes that are no text), a
  file whose text is not valid JSON, or a JSON document.
\<close>

datatype read_failure = NoPermission | IsADirectory | NotText

datatype config_file = Absent | Unreadable read_failure | NotJson | Document json

fun read_failure_exn :: "read_failure \<Rightarrow> exn" where
  "read_failure_exn NoPermission = Exn PermissionError ''Permission denied''"
| "read_failure_exn IsADirectory = Exn IsADirectoryError ''Is a directory''"
| "read_failure_exn NotText = Exn UnicodeDecodeError ''invalid start byte''"

fun open_and_load :: "config_file \<Rightarrow> exn + json" where
  "open_and_load Absent = Inl (Exn FileNotFoundError ''No such file or directory'')"
| "open_and_load (Unreadable failure) = Inl (read_failure_exn failure)"
| "open_and_load NotJson = Inl (Exn JSONDecodeError ''Expecting value'')"
| "open_and_load (Document v) = Inr v"

text \<open>
  \<open>load_config\<close>: the value returned or the exception raised, and the lines printed.  The
  two \<open>except\<close> clauses catch \<open>FileNotFoundError\<close> and \<open>json.JSONDecodeError\<close> and nothing else.
\<close>

definition load_config :: "(string \<Rightarrow> config_file) \<Rightarrow> string \<Rightarrow> (exn + json) \<times> string list" where
  "load_config disk config_path =
     (case open_and_load (disk config_path) of
        Inr v \<Rightarrow> (Inr v, [])
      | Inl e \<Rightarrow>
          if exn_class_of e = FileNotFoundError
          then (Inr JNull, [''Config file not found at '' @ config_path])
          else if exn_class_of e = JSONDecodeError
          then (Inr JNull, [''Invalid JSON in config file at '' @ config_path])
          else (Inl e, []))"

section \<open>Notions of the specification\<close>



section \<open>Example values\<close>

text \<open>
  The detector as \<open>ObjectDetector.__init__\<close> builds it by default (threshold 0.9, at most five
  results, output directory \<open>images\<close>), and a few detection results.
\<close>

definition example_detector :: object_detector where
  "example_detector =
     \<lparr>model_path = ''model.tflite'', confidence_threshold = 0.9, max_results = 5,
      output_dir = ''images''\<rparr>"

definition example_category :: "string \<Rightarrow> real \<Rightarrow> category" where
  "example_category name s = \<lparr>category_name = name, score = s\<rparr>"

definition example_detection :: "category list \<Rightarrow> detection" where
  "example_detection cs =
     \<lparr>bounding_box = \<lparr>origin_x = 10, origin_y = 20, width = 100, height = 50\<rparr>,
      categories = cs\<rparr>"

text \<open>
  A stand-in for Python's \<open>.2%\<close> formatting, used only to evaluate the examples (at the
  scores 0.5 and 0.95): the score times 100, rounded half to even to two decimals, with the
  sign of a negative score.
\<close>

definition round_half_even :: "real \<Rightarrow> nat" where
  "round_half_even x =
     (let f = nat \<lfloor>x\<rfloor>; d = x - real f
      in if d < 1 / 2 then f else if 1 / 2 < d then Suc f else if even f then f else Suc f)"

definition example_percent :: "real \<Rightarrow> string" where
  "example_percent s =
     (let n = round_half_even (\<bar>s\<bar> * 10000) in
      (if s < 0 then ''-'' else []) @
      str_nat (n div 100) @ ''.'' @ [digit_char (n mod 100 div 10), digit_char (n mod 10)] @ ''%'')"

text \<open>No detection at all.\<close>

definition no_detections :: detection_result where
  "no_detections = \<lparr>detections = []\<rparr>"

text \<open>A person seen at 50% and another at 95%: the second one meets the threshold.\<close>

definition mixed_detections :: detection_result where
  "mixed_detections =
     \<lparr>detections = [example_detection [example_category ''person'' 0.5],
                    example_detection [example_category ''person'' 0.95]]\<rparr>"

text \<open>A single detection below the threshold.\<close>

definition low_detections :: detection_result where
  "low_detections = \<lparr>detections = [example_detection [example_category ''cat'' 0.5]]\<rparr>"

text \<open>
  The same detection with a second category above the threshold, and a detection without
  any category.
\<close>

definition second_category_high :: detection_result where
  "second_category_high =
     \<lparr>detections = [example_detection [example_category ''cat'' 0.5,
                                        example_category ''person'' 0.99]]\<rparr>"

definition uncategorised_then_high :: detection_result where
  "uncategorised_then_high =
     \<lparr>detections = [example_detection [],
                    example_detection [example_category ''person'' 0.95]]\<rparr>"

text \<open>
  Disks for \<open>load_config\<close>: a configuration file holding the JSON document \<open>null\<close>, one
  holding an object, one that is not JSON, one that may not be read, and none at all.
\<close>

definition example_config :: json where
  "example_config = JObject [(''telegram'', JObject [(''token'', JString ''t'')])]"

definition example_disk :: "string \<Rightarrow> config_file" where
  "example_disk path =
     (if path = ''null.json'' then Document JNull
      else if path = ''config.json'' then Document example_config
      else if path = ''broken.json'' then NotJson
      else if path = ''secret.json'' then Unreadable NoPermission
      else Absent)"









section \<open>Unfolding the examples\<close>

lemmas example_defs =
  example_detector_def example_category_def example_detection_def no_detections_def
  mixed_detections_def low_detections_def second_category_high_def
  uncategorised_then_high_def

section \<open>Properties of the access decision\<close>

lemma meets_threshold_iff:
  "meets_threshold self d =
     (\<exists>c cs. categories d = c # cs \<and> confidence_threshold self \<le> score c)"
  by (cases "categories d") (simp_all add: meets_threshold_def)

lemma check_access_loop_total:
  "list_all (\<lambda>d. categories d \<noteq> []) ds \<Longrightarrow>
   check_access_loop self ds = Inr (list_ex (meets_threshold self) ds)"
  by (induction ds) (auto simp: first_category_def meets_threshold_def split: list.splits)

lemma check_access_loop_True:
  "check_access_loop self ds = Inr True \<Longrightarrow> list_ex (meets_threshold self) ds"
  by (induction ds)
     (auto simp: first_category_def meets_threshold_def Let_def split: list.splits if_splits)

lemma check_access_loop_first_only:
  "map (\<lambda>d. take 1 (categories d)) ds = map (\<lambda>d. take 1 (categories d)) ds' \<Longrightarrow>
   check_access_loop self ds = check_access_loop self ds'"
proof (induction ds arbitrary: ds')
  case Nil
  then show ?case by simp
next
  case (Cons d ds)
  then obtain d' ds'' where ds': "ds' = d' # ds''" by (cases ds') auto
  with Cons.prems have hd_eq: "take 1 (categories d) = take 1 (categories d')"
    and tl_eq: "map (\<lambda>d. take 1 (categories d)) ds = map (\<lambda>d. take 1 (categories d)) ds''"
    by auto
  from hd_eq have "first_category d = first_category d'"
    by (cases "categories d"; cases "categories d'") (auto simp: first_category_def)
  with Cons.IH [OF tl_eq] ds' show ?case by (simp split: sum.splits)
qed

lemma check_access_loop_False:
  "check_access_loop self ds = Inr False \<Longrightarrow> \<not> list_ex (meets_threshold self) ds"
  by (induction ds)
     (auto simp: first_category_def meets_threshold_def Let_def split: list.splits if_splits)

lemma check_access_loop_raises:
  "check_access_loop self ds = Inl e \<Longrightarrow>
   e = Exn IndexError ''list index out of range'' \<and>
   \<not> list_all (\<lambda>d. categories d \<noteq> []) ds"
  by (induction ds)
     (auto simp: first_category_def Let_def split: list.splits if_splits)

text \<open>
  C1, as amended.  Whenever \<open>check_access\<close> returns, it returns \<open>True\<close> if and only if at
  least one detection's first-category score is at least the configured threshold.  It
  returns, with that value, on every result whose detections all carry a category: \<open>False\<close>
  on an empty detection list and \<open>False\<close> when every first-category score is strictly
  below the threshold.  When it does not return it raises \<open>IndexError\<close>, and then some
  detection carries no category.
\<close>

theorem check_access_decides_when_it_returns:
  "(check_access self r = Inr b \<longrightarrow>
      b = (\<exists>d \<in> set (detections r). \<exists>c cs.
             categories d = c # cs \<and> confidence_threshold self \<le> score c)) \<and>
   (detections r = [] \<longrightarrow> check_access self r = Inr False) \<and>
   (has_categories r \<longrightarrow>
      check_access self r =
        Inr (\<exists>d \<in> set (detections r). \<exists>c cs.
               categories d = c # cs \<and> confidence_threshold self \<le> score c)) \<and>
   ((\<forall>d \<in> set (detections r). \<exists>c cs.
        categories d = c # cs \<and> score c < confidence_threshold self) \<longrightarrow>
      check_access self r = Inr False) \<and>
   (check_access self r = Inl e \<longrightarrow>
      e = Exn IndexError ''list index out of range'' \<and> \<not> has_categories r)"
proof -
  have ex_eq: "list_ex (meets_threshold self) (detections r) =
      (\<exists>d \<in> set (detections r). \<exists>c cs.
         categories d = c # cs \<and> confidence_threshold self \<le> score c)"
    by (simp add: list_ex_iff meets_threshold_iff)
  have returned: "b = (\<exists>d \<in> set (detections r). \<exists>c cs.
             categories d = c # cs \<and> confidence_threshold self \<le> score c)"
    if ret: "check_access self r = Inr b"
  proof (cases "detections r = []")
    case True
    with ret show ?thesis by (simp add: check_access_def)
  next
    case False
    with ret have loop: "check_access_loop self (detections r) = Inr b"
      by (simp add: check_access_def)
    show ?thesis
    proof (cases b)
      case True
      with loop have "list_ex (meets_threshold self) (detections r)"
        by (simp add: check_access_loop_True)
      with True show ?thesis unfolding ex_eq by simp
    next
      case False
      with loop have "\<not> list_ex (meets_threshold self) (detections r)"
        by (simp add: check_access_loop_False)
      with False show ?thesis unfolding ex_eq by simp
    qed
  qed
  have empty: "check_access self r = Inr False" if "detections r = []"
    using that by (simp add: check_access_def)
  have total: "check_access self r =
      Inr (\<exists>d \<in> set (detections r). \<exists>c cs.
             categories d = c # cs \<and> confidence_threshold self \<le> score c)"
    if wf: "has_categories r"
  proof -
    from wf have "check_access_loop self (detections r) =
        Inr (list_ex (meets_threshold self) (detections r))"
      unfolding has_categories_def by (rule check_access_loop_total)
    then show ?thesis unfolding ex_eq by (auto simp: check_access_def)
  qed
  have below: "check_access self r = Inr False"
    if low: "\<forall>d \<in> set (detections r). \<exists>c cs.
      categories d = c # cs \<and> score c < confidence_threshold self"
  proof -
    from low have wf: "list_all (\<lambda>d. categories d \<noteq> []) (detections r)"
      by (auto simp: list_all_iff)
    from low have "\<not> list_ex (meets_threshold self) (detections r)"
      by (fastforce simp: list_ex_iff meets_threshold_iff)
    with check_access_loop_total [OF wf, of self] show ?thesis
      by (simp add: check_access_def)
  qed
  have raised: "e = Exn IndexError ''list index out of range'' \<and> \<not> has_categories r"
    if "check_access self r = Inl e"
  proof -
    from that have "check_access_loop self (detections r) = Inl e"
      by (simp add: check_access_def split: if_splits)
    then show ?thesis
      unfolding has_categories_def by (rule check_access_loop_raises)
  qed
  from returned empty total below raised show ?thesis by blast
qed

theorem check_access_decides_when_it_returns_witness:
  "check_access example_detector mixed_detections = Inr True \<and>
   (\<exists>d \<in> set (detections mixed_detections). \<exists>c cs.
      categories d = c # cs \<and> confidence_threshold example_detector \<le> score c) \<and>
   detections no_detections = [] \<and> check_access example_detector no_detections = Inr False \<and>
   has_categories mixed_detections \<and>
   list_all (\<lambda>d. score (hd (categories d)) < confidence_threshold example_detector)
     (detections low_detections) \<and>
   check_access example_detector low_detections = Inr False \<and>
   check_access example_detector uncategorised_then_high
     = Inl (Exn IndexError ''list index out of range'') \<and>
   \<not> has_categories uncategorised_then_high"
proof -
  note spec = check_access_decides_when_it_returns
  have mixed: "check_access example_detector mixed_detections = Inr True"
    and raised: "check_access example_detector uncategorised_then_high
      = Inl (Exn IndexError ''list index out of range'')"
    and wf: "has_categories mixed_detections"
    and none: "detections no_detections = []"
    and low: "\<forall>d \<in> set (detections low_detections). \<exists>c cs.
        categories d = c # cs \<and> score c < confidence_threshold example_detector"
    and low': "list_all (\<lambda>d. score (hd (categories d)) < confidence_threshold example_detector)
        (detections low_detections)"
    by (simp_all add: check_access_def first_category_def example_defs has_categories_def)
  from spec [of example_detector mixed_detections True, THEN conjunct1, THEN mp, OF mixed]
  have some: "\<exists>d \<in> set (detections mixed_detections). \<exists>c cs.
      categories d = c # cs \<and> confidence_threshold example_detector \<le> score c"
    by simp
  note rest = spec [of example_detector no_detections True, THEN conjunct2]
  have empty: "check_access example_detector no_detections = Inr False"
    by (rule rest [THEN conjunct1, THEN mp, OF none])
  note rest_low = spec [of example_detector low_detections True, THEN conjunct2, THEN conjunct2,
      THEN conjunct2]
  have below: "check_access example_detector low_detections = Inr False"
    by (rule rest_low [THEN conjunct1, THEN mp, OF low])
  note rest_raise = spec [of example_detector uncategorised_then_high True
      "Exn IndexError ''list index out of range''", THEN conjunct2, THEN conjunct2,
      THEN conjunct2, THEN conjunct2]
  have ill: "\<not> has_categories uncategorised_then_high"
    by (rule rest_raise [THEN mp, OF raised, THEN conjunct2])
  show ?thesis
    by (intro conjI mixed some none empty wf low' below raised ill)
qed

text \<open>
  The claim as first stated, for every detection result, fails: in
  \<open>uncategorised_then_high\<close> the second detection's first-category score 0.95 meets the
  threshold 0.9, yet \<open>check_access\<close> does not return \<open>True\<close>: it raises \<open>IndexError\<close> at
  the first detection, which has no category.
\<close>

theorem check_access_raises_although_a_detection_meets_threshold:
  "(\<exists>d \<in> set (detections uncategorised_then_high). \<exists>c cs.
      categories d = c # cs \<and> confidence_threshold example_detector \<le> score c) \<and>
   check_access example_detector uncategorised_then_high \<noteq> Inr True \<and>
   check_access example_detector uncategorised_then_high
     = Inl (Exn IndexError ''list index out of range'')"
  by (simp add: check_access_def first_category_def example_defs)

section \<open>Properties of the summary\<close>

lemma format_loop_total:
  "list_all (\<lambda>d. categories d \<noteq> []) ds \<Longrightarrow>
   format_loop self percent i ds message =
     Inr (message @ concat (map (\<lambda>(i, d). summary_entry self percent i (hd (categories d)))
                               (enumerate i ds)))"
  by (induction ds arbitrary: i message)
     (auto simp: first_category_def summary_entry_def Let_def split: list.splits)

lemma format_loop_prefix:
  "format_loop self percent i ds message = Inr m \<Longrightarrow> \<exists>rest. m = message @ rest"
proof (induction ds arbitrary: i message)
  case Nil
  then show ?case by simp
next
  case (Cons d ds)
  from Cons.prems obtain c where c: "first_category d = Inr c"
    by (cases "first_category d") auto
  from Cons.prems c obtain added where
    "format_loop self percent (Suc i) ds (message @ added) = Inr m"
    by (cases "confidence_threshold self \<le> score c") (simp_all add: Let_def)
  from Cons.IH [OF this] show ?case by auto
qed

lemma format_loop_first_only:
  "map (\<lambda>d. take 1 (categories d)) ds = map (\<lambda>d. take 1 (categories d)) ds' \<Longrightarrow>
   format_loop self percent i ds message = format_loop self percent i ds' message"
proof (induction ds arbitrary: ds' i message)
  case Nil
  then show ?case by simp
next
  case (Cons d ds)
  then obtain d' ds'' where ds': "ds' = d' # ds''" by (cases ds') auto
  with Cons.prems have hd_eq: "take 1 (categories d) = take 1 (categories d')"
    and tl_eq: "map (\<lambda>d. take 1 (categories d)) ds = map (\<lambda>d. take 1 (categories d)) ds''"
    by auto
  from hd_eq have "first_category d = first_category d'"
    by (cases "categories d"; cases "categories d'") (auto simp: first_category_def)
  with Cons.IH [OF tl_eq] ds' show ?case by (simp split: sum.splits)
qed

lemma header_not_sentinel: "results_header @ rest \<noteq> no_objects_message"
  by (simp add: results_header_def no_objects_message_def emoji_magnifier_def
      emoji_no_entry_def)

lemma format_loop_returns:
  "format_loop self percent i ds message = Inr m \<Longrightarrow>
   list_all (\<lambda>d. categories d \<noteq> []) ds"
proof (induction ds arbitrary: i message)
  case Nil
  then show ?case by simp
next
  case (Cons d ds)
  from Cons.prems obtain c where c: "first_category d = Inr c"
    by (cases "first_category d") auto
  then have d: "categories d \<noteq> []"
    by (auto simp: first_category_def split: list.splits)
  from Cons.prems c obtain added where
    "format_loop self percent (Suc i) ds (message @ added) = Inr m"
    by (cases "confidence_threshold self \<le> score c") (simp_all add: Let_def)
  from Cons.IH [OF this] d show ?case by simp
qed

lemma format_loop_raises:
  "format_loop self percent i ds message = Inl e \<Longrightarrow>
   e = Exn IndexError ''list index out of range'' \<and>
   \<not> list_all (\<lambda>d. categories d \<noteq> []) ds"
proof (induction ds arbitrary: i message)
  case Nil
  then show ?case by simp
next
  case (Cons d ds)
  show ?case
  proof (cases "first_category d")
    case (Inl e')
    with Cons.prems show ?thesis
      by (auto simp: first_category_def split: list.splits)
  next
    case (Inr c)
    with Cons.prems obtain added where
      "format_loop self percent (Suc i) ds (message @ added) = Inl e"
      by (cases "confidence_threshold self \<le> score c") (simp_all add: Let_def)
    from Cons.IH [OF this] show ?thesis by simp
  qed
qed

text \<open>
  C7, as amended.  \<open>format_detection_message\<close> returns the "no objects detected" sentinel
  exactly when the detection list is empty.  On a non-empty list it returns a message if
  and only if every detection carries a category, and the message is then the header
  followed by one entry per detection, in order; each entry holds the position, the label,
  the confidence as a percentage and the annotation chosen from that detection's own
  confidence: granted when it meets the threshold, denied when it is below, whatever the
  other detections are.  Otherwise it raises \<open>IndexError\<close>.
\<close>

theorem format_detection_message_returns_entries:
  "(format_detection_message self percent r = Inr no_objects_message
      \<longleftrightarrow> detections r = []) \<and>
   (format_detection_message self percent r = Inr m \<longleftrightarrow>
      (detections r = [] \<and> m = no_objects_message) \<or>
      (detections r \<noteq> [] \<and> has_categories r \<and>
       m = results_header @ concat (summary_entries self percent (detections r)))) \<and>
   (format_detection_message self percent r = Inl e \<longrightarrow>
      e = Exn IndexError ''list index out of range'' \<and>
      detections r \<noteq> [] \<and> \<not> has_categories r) \<and>
   length (summary_entries self percent (detections r)) = length (detections r) \<and>
   (has_categories r \<longrightarrow>
      (\<forall>i < length (detections r).
         \<exists>c cs. categories (detections r ! i) = c # cs \<and>
           summary_entries self percent (detections r) ! i =
             newline @ str_nat (Suc i) @ ''. <b>'' @ category_name c @ ''</b>''
             @ newline @ ''   Confidence: '' @ percent (score c)
             @ (if confidence_threshold self \<le> score c then granted_line else denied_line)))"
proof -
  have empty: "format_detection_message self percent r = Inr no_objects_message"
    if "detections r = []"
    using that by (simp add: format_detection_message_def)
  have loop: "format_detection_message self percent r =
      format_loop self percent 1 (detections r) results_header"
    if "detections r \<noteq> []"
    using that by (simp add: format_detection_message_def)
  have differs: "format_detection_message self percent r \<noteq> Inr no_objects_message"
    if ne: "detections r \<noteq> []"
  proof
    assume "format_detection_message self percent r = Inr no_objects_message"
    with loop [OF ne] have "format_loop self percent 1 (detections r) results_header
        = Inr no_objects_message"
      by simp
    from format_loop_prefix [OF this] header_not_sentinel show False by metis
  qed
  have full: "format_detection_message self percent r =
      Inr (results_header @ concat (summary_entries self percent (detections r)))"
    if wf: "has_categories r" and ne: "detections r \<noteq> []"
  proof -
    from wf have "format_loop self percent 1 (detections r) results_header =
        Inr (results_header @ concat (summary_entries self percent (detections r)))"
      unfolding has_categories_def summary_entries_def by (rule format_loop_total)
    with loop [OF ne] show ?thesis by simp
  qed
  have returned: "has_categories r"
    if ret: "format_detection_message self percent r = Inr m" and ne: "detections r \<noteq> []"
  proof -
    from ret loop [OF ne] have "format_loop self percent 1 (detections r) results_header = Inr m"
      by simp
    then show ?thesis unfolding has_categories_def by (rule format_loop_returns)
  qed
  have sentinel: "format_detection_message self percent r = Inr no_objects_message
      \<longleftrightarrow> detections r = []"
    using empty differs by blast
  have characterised: "format_detection_message self percent r = Inr m \<longleftrightarrow>
      (detections r = [] \<and> m = no_objects_message) \<or>
      (detections r \<noteq> [] \<and> has_categories r \<and>
       m = results_header @ concat (summary_entries self percent (detections r)))"
  proof (cases "detections r = []")
    case True
    with empty show ?thesis by auto
  next
    case False
    show ?thesis
    proof
      assume ret: "format_detection_message self percent r = Inr m"
      from returned [OF ret False] have wf: "has_categories r" .
      from full [OF wf False] ret False wf show
        "(detections r = [] \<and> m = no_objects_message) \<or>
         (detections r \<noteq> [] \<and> has_categories r \<and>
          m = results_header @ concat (summary_entries self percent (detections r)))"
        by simp
    next
      assume "(detections r = [] \<and> m = no_objects_message) \<or>
         (detections r \<noteq> [] \<and> has_categories r \<and>
          m = results_header @ concat (summary_entries self percent (detections r)))"
      with False full show "format_detection_message self percent r = Inr m" by simp
    qed
  qed
  have raised: "e = Exn IndexError ''list index out of range'' \<and>
      detections r \<noteq> [] \<and> \<not> has_categories r"
    if err: "format_detection_message self percent r = Inl e"
  proof -
    from err empty have ne: "detections r \<noteq> []" by auto
    from err loop [OF ne] have "format_loop self percent 1 (detections r) results_header = Inl e"
      by simp
    from format_loop_raises [OF this] ne show ?thesis
      unfolding has_categories_def by simp
  qed
  have count: "length (summary_entries self percent (detections r)) = length (detections r)"
    by (simp add: summary_entries_def)
  have shape: "\<forall>i < length (detections r).
         \<exists>c cs. categories (detections r ! i) = c # cs \<and>
           summary_entries self percent (detections r) ! i =
             newline @ str_nat (Suc i) @ ''. <b>'' @ category_name c @ ''</b>''
             @ newline @ ''   Confidence: '' @ percent (score c)
             @ (if confidence_threshold self \<le> score c then granted_line else denied_line)"
    if wf: "has_categories r"
  proof (intro allI impI)
    fix i assume i: "i < length (detections r)"
    with wf have "categories (detections r ! i) \<noteq> []"
      by (simp add: has_categories_def list_all_length)
    then obtain c cs where c: "categories (detections r ! i) = c # cs"
      by (cases "categories (detections r ! i)") auto
    from i c have "summary_entries self percent (detections r) ! i =
        summary_entry self percent (Suc i) c"
      by (simp add: summary_entries_def nth_enumerate_eq)
    with c show "\<exists>c cs. categories (detections r ! i) = c # cs \<and>
           summary_entries self percent (detections r) ! i =
             newline @ str_nat (Suc i) @ ''. <b>'' @ category_name c @ ''</b>''
             @ newline @ ''   Confidence: '' @ percent (score c)
             @ (if confidence_threshold self \<le> score c then granted_line else denied_line)"
      by (simp add: summary_entry_def)
  qed
  have raised_imp: "format_detection_message self percent r = Inl e \<longrightarrow>
      e = Exn IndexError ''list index out of range'' \<and>
      detections r \<noteq> [] \<and> \<not> has_categories r"
    by (rule impI) (rule raised)
  have shape_imp: "has_categories r \<longrightarrow>
      (\<forall>i < length (detections r).
         \<exists>c cs. categories (detections r ! i) = c # cs \<and>
           summary_entries self percent (detections r) ! i =
             newline @ str_nat (Suc i) @ ''. <b>'' @ category_name c @ ''</b>''
             @ newline @ ''   Confidence: '' @ percent (score c)
             @ (if confidence_threshold self \<le> score c then granted_line else denied_line))"
    by (rule impI) (rule shape)
  show ?thesis
    by (rule conjI [OF sentinel conjI [OF characterised
          conjI [OF raised_imp conjI [OF count shape_imp]]]])
qed

theorem format_detection_message_returns_entries_witness:
  "detections no_detections = [] \<and>
   format_detection_message example_detector example_percent no_detections
     = Inr no_objects_message \<and>
   has_categories mixed_detections \<and> detections mixed_detections \<noteq> [] \<and>
   check_access example_detector mixed_detections = Inr True \<and>
   format_detection_message example_detector example_percent mixed_detections =
     Inr (results_header
          @ newline @ ''1. <b>person</b>'' @ newline @ ''   Confidence: 50.00%'' @ denied_line
          @ newline @ ''2. <b>person</b>'' @ newline @ ''   Confidence: 95.00%'' @ granted_line) \<and>
   format_detection_message example_detector example_percent mixed_detections
     \<noteq> Inr no_objects_message \<and>
   format_detection_message example_detector example_percent uncategorised_then_high
     = Inl (Exn IndexError ''list index out of range'') \<and>
   \<not> has_categories uncategorised_then_high"
proof -
  have entries: "summary_entries example_detector example_percent (detections mixed_detections) =
      [newline @ ''1. <b>person</b>'' @ newline @ ''   Confidence: 50.00%'' @ denied_line,
       newline @ ''2. <b>person</b>'' @ newline @ ''   Confidence: 95.00%'' @ granted_line]"
    by (simp add: summary_entries_def summary_entry_def example_defs enumerate_eq_zip
        example_percent_def round_half_even_def str_nat.simps digit_char_def)
  have access: "check_access example_detector mixed_detections = Inr True"
    by (simp add: check_access_def example_defs first_category_def)
  have wf: "has_categories mixed_detections" "detections mixed_detections \<noteq> []"
    "detections no_detections = []"
    by (simp_all add: example_defs has_categories_def)
  have raised: "format_detection_message example_detector example_percent
      uncategorised_then_high = Inl (Exn IndexError ''list index out of range'')"
    by (simp add: format_detection_message_def first_category_def example_defs)
  note spec_empty =
    format_detection_message_returns_entries
      [of example_detector example_percent no_detections]
  note spec_mixed =
    format_detection_message_returns_entries
      [of example_detector example_percent mixed_detections
          "results_header @ concat (summary_entries example_detector example_percent
                                      (detections mixed_detections))"]
  note spec_raised =
    format_detection_message_returns_entries
      [of example_detector example_percent uncategorised_then_high _
          "Exn IndexError ''list index out of range''"]
  have empty: "format_detection_message example_detector example_percent no_detections
      = Inr no_objects_message"
    by (rule spec_empty [THEN conjunct1, THEN iffD2, OF wf(3)])
  have differs: "format_detection_message example_detector example_percent mixed_detections
      \<noteq> Inr no_objects_message"
    using spec_mixed [THEN conjunct1] wf(2) by (rule_tac notI) (drule (1) iffD1, erule (1) notE)
  have full: "format_detection_message example_detector example_percent mixed_detections =
      Inr (results_header @ concat (summary_entries example_detector example_percent
                                      (detections mixed_detections)))"
    by (rule spec_mixed [THEN conjunct2, THEN conjunct1, THEN iffD2])
       (intro disjI2 conjI wf refl)
  have message: "format_detection_message example_detector example_percent
      mixed_detections =
     Inr (results_header
          @ newline @ ''1. <b>person</b>'' @ newline @ ''   Confidence: 50.00%'' @ denied_line
          @ newline @ ''2. <b>person</b>'' @ newline @ ''   Confidence: 95.00%'' @ granted_line)"
    unfolding full entries by simp
  have ill: "\<not> has_categories uncategorised_then_high"
    by (rule spec_raised [THEN conjunct2, THEN conjunct2, THEN conjunct1, THEN mp, OF raised,
          THEN conjunct2, THEN conjunct2])
  show ?thesis
    by (intro conjI wf empty access message differs raised ill)
qed

text \<open>
  The claim as first stated, for every detection result, fails: \<open>uncategorised_then_high\<close>
  is not empty, yet \<open>format_detection_message\<close> produces no entry for its detections: it
  raises \<open>IndexError\<close> at the first one, which has no category.
\<close>

theorem format_detection_message_raises_on_uncategorised_detection:
  "detections uncategorised_then_high \<noteq> [] \<and>
   length (detections uncategorised_then_high) = 2 \<and>
   format_detection_message example_detector example_percent uncategorised_then_high
     = Inl (Exn IndexError ''list index out of range'')"
  by (simp add: format_detection_message_def first_category_def example_defs)

text \<open>
  C9.  Both operations read \<open>categories[0]\<close> only: on a result whose detections all carry a
  category neither fails; two results with the same first categories get the same decision
  and the same summary, whatever their other categories are; and a granted decision always
  comes from the first category of some detection.
\<close>

theorem only_first_category_is_read:
  "(has_categories r \<longrightarrow>
      (\<exists>b. check_access self r = Inr b) \<and>
      (\<exists>m. format_detection_message self percent r = Inr m)) \<and>
   (first_categories r = first_categories r' \<longrightarrow>
      check_access self r = check_access self r' \<and>
      format_detection_message self percent r = format_detection_message self percent r') \<and>
   (check_access self r = Inr True \<longrightarrow>
      (\<exists>d \<in> set (detections r). \<exists>c cs.
         categories d = c # cs \<and> confidence_threshold self \<le> score c))"
proof (intro conjI impI)
  assume wf: "has_categories r"
  then show "\<exists>b. check_access self r = Inr b"
    by (cases "detections r = []")
       (auto simp: check_access_def has_categories_def check_access_loop_total)
  from wf show "\<exists>m. format_detection_message self percent r = Inr m"
    by (cases "detections r = []")
       (simp_all add: format_detection_message_def has_categories_def format_loop_total)
next
  assume eq: "first_categories r = first_categories r'"
  then have len: "length (detections r) = length (detections r')"
    unfolding first_categories_def by (rule map_eq_imp_length_eq)
  then have empty: "detections r = [] \<longleftrightarrow> detections r' = []" by auto
  from eq have "check_access_loop self (detections r) = check_access_loop self (detections r')"
    unfolding first_categories_def by (rule check_access_loop_first_only)
  with empty show "check_access self r = check_access self r'"
    by (simp add: check_access_def)
  from eq have "format_loop self percent 1 (detections r) results_header =
      format_loop self percent 1 (detections r') results_header"
    unfolding first_categories_def by (rule format_loop_first_only)
  with len show "format_detection_message self percent r
      = format_detection_message self percent r'"
    by (simp add: format_detection_message_def)
next
  assume "check_access self r = Inr True"
  then have "check_access_loop self (detections r) = Inr True"
    by (simp add: check_access_def split: if_splits)
  then have "list_ex (meets_threshold self) (detections r)"
    by (rule check_access_loop_True)
  then show "\<exists>d \<in> set (detections r). \<exists>c cs.
         categories d = c # cs \<and> confidence_threshold self \<le> score c"
    by (simp add: list_ex_iff meets_threshold_iff)
qed

theorem only_first_category_is_read_witness:
  "has_categories second_category_high \<and>
   first_categories second_category_high = first_categories low_detections \<and>
   check_access example_detector second_category_high = Inr False \<and>
   format_detection_message example_detector example_percent second_category_high =
     Inr (results_header
          @ newline @ ''1. <b>cat</b>'' @ newline @ ''   Confidence: 50.00%'' @ denied_line) \<and>
   check_access example_detector mixed_detections = Inr True \<and>
   (\<exists>d \<in> set (detections mixed_detections). \<exists>c cs.
      categories d = c # cs \<and> confidence_threshold example_detector \<le> score c)"
proof -
  have low: "check_access example_detector low_detections = Inr False"
    "format_detection_message example_detector example_percent low_detections =
     Inr (results_header
          @ newline @ ''1. <b>cat</b>'' @ newline @ ''   Confidence: 50.00%'' @ denied_line)"
    "check_access example_detector mixed_detections = Inr True"
    by (simp_all add: check_access_def format_detection_message_def example_defs
        first_category_def example_percent_def round_half_even_def str_nat.simps digit_char_def)
  have hyps: "has_categories second_category_high"
    "first_categories second_category_high = first_categories low_detections"
    by (simp_all add: example_defs has_categories_def first_categories_def)
  note spec =
    only_first_category_is_read
      [of second_category_high example_detector example_percent low_detections]
  note same = spec [THEN conjunct2, THEN conjunct1, THEN mp, OF hyps(2)]
  have decision: "check_access example_detector second_category_high = Inr False"
    unfolding same [THEN conjunct1] by (rule low(1))
  have summary: "format_detection_message example_detector example_percent
      second_category_high =
     Inr (results_header
          @ newline @ ''1. <b>cat</b>'' @ newline @ ''   Confidence: 50.00%'' @ denied_line)"
    unfolding same [THEN conjunct2] by (rule low(2))
  have origin: "\<exists>d \<in> set (detections mixed_detections). \<exists>c cs.
      categories d = c # cs \<and> confidence_threshold example_detector \<le> score c"
    by (rule only_first_category_is_read
          [of mixed_detections example_detector example_percent mixed_detections,
           THEN conjunct2, THEN conjunct2, THEN mp, OF low(3)])
  show ?thesis
    by (intro conjI hyps decision summary low(3) origin)
qed

section \<open>Running statements\<close>



lemma and_then_returns: "fst (m w) = Inr x \<Longrightarrow> and_then m f w = f x (snd (m w))"
  by (cases "m w") (simp add: and_then_def)


lemma external_returns:
  "calls w \<notin> faults w \<Longrightarrow>
   external c e effect w =
     (Inr (), effect (w\<lparr>calls := Suc (calls w), events := events w @ [Called c True]\<rparr>))"
  by (simp add: external_def Let_def)

lemma external_raises:
  "calls w \<in> faults w \<Longrightarrow>
   external c e effect w =
     (Inl e, w\<lparr>calls := Suc (calls w), events := events w @ [Called c False]\<rparr>)"
  by (simp add: external_def Let_def)

section \<open>Properties of the detection step\<close>













section \<open>Properties of the cleanup phase\<close>













section \<open>Properties of the configuration loader\<close>

text \<open>
  C10, as amended.  \<open>load_config\<close> returns \<open>None\<close> exactly when the configuration file is
  absent, its contents are not valid JSON, or its contents are the JSON document \<open>null\<close>;
  on every other document it returns the decoded value; any other exception raised while
  the file is opened and read (no permission, a directory, undecodable bytes) propagates to
  the caller.
\<close>

theorem load_config_returns_none_iff:
  "(fst (load_config disk config_path) = Inr JNull \<longleftrightarrow>
      disk config_path = Absent \<or> disk config_path = NotJson \<or>
      disk config_path = Document JNull) \<and>
   (disk config_path = Document v \<longrightarrow> fst (load_config disk config_path) = Inr v) \<and>
   (disk config_path = Unreadable failure \<longrightarrow>
      fst (load_config disk config_path) = Inl (read_failure_exn failure) \<and>
      snd (load_config disk config_path) = [])"
proof (cases "disk config_path")
  case Absent
  then show ?thesis by (simp add: load_config_def)
next
  case (Unreadable f)
  then show ?thesis by (cases f; cases failure) (simp_all add: load_config_def)
next
  case NotJson
  then show ?thesis by (simp add: load_config_def)
next
  case (Document d)
  then show ?thesis by (auto simp: load_config_def)
qed

theorem load_config_returns_none_iff_witness:
  "fst (load_config example_disk ''missing.json'') = Inr JNull \<and>
   fst (load_config example_disk ''broken.json'') = Inr JNull \<and>
   fst (load_config example_disk ''null.json'') = Inr JNull \<and>
   example_disk ''config.json'' = Document example_config \<and>
   fst (load_config example_disk ''config.json'') = Inr example_config \<and>
   example_disk ''secret.json'' = Unreadable NoPermission \<and>
   fst (load_config example_disk ''secret.json'') = Inl (Exn PermissionError ''Permission denied'')"
proof -
  note spec = load_config_returns_none_iff
  have disk: "example_disk ''missing.json'' = Absent" "example_disk ''broken.json'' = NotJson"
    "example_disk ''null.json'' = Document JNull"
    "example_disk ''config.json'' = Document example_config"
    "example_disk ''secret.json'' = Unreadable NoPermission"
    by (simp_all add: example_disk_def)
  have missing: "fst (load_config example_disk ''missing.json'') = Inr JNull"
    by (rule spec [of example_disk "''missing.json''", THEN conjunct1, THEN iffD2])
       (simp add: disk)
  have broken: "fst (load_config example_disk ''broken.json'') = Inr JNull"
    by (rule spec [of example_disk "''broken.json''", THEN conjunct1, THEN iffD2])
       (simp add: disk)
  have null: "fst (load_config example_disk ''null.json'') = Inr JNull"
    by (rule spec [of example_disk "''null.json''", THEN conjunct1, THEN iffD2])
       (simp add: disk)
  have config: "fst (load_config example_disk ''config.json'') = Inr example_config"
    by (rule spec [of example_disk "''config.json''" example_config,
          THEN conjunct2, THEN conjunct1, THEN mp, OF disk(4)])
  from spec [of example_disk "''secret.json''" _ NoPermission,
      THEN conjunct2, THEN conjunct2, THEN mp, OF disk(5), THEN conjunct1]
  have secret: "fst (load_config example_disk ''secret.json'')
      = Inl (Exn PermissionError ''Permission denied'')"
    by simp
  show ?thesis
    by (intro conjI missing broken null config secret disk(4) disk(5))
qed

text \<open>
  The claim as first stated fails on a configuration file that holds the valid JSON
  document \<open>null\<close>: the file is present and decodes, and \<open>load_config\<close> returns \<open>None\<close>.
\<close>

theorem load_config_returns_none_on_null_document:
  "example_disk ''null.json'' \<noteq> Absent \<and> example_disk ''null.json'' \<noteq> NotJson \<and>
   example_disk ''null.json'' = Document JNull \<and>
   load_config example_disk ''null.json'' = (Inr JNull, [])"
  by (simp add: example_disk_def load_config_def)

end
